theory Spec2Isabelle
  imports Main "HOL-Library.Char_ord" "HOL-Library.List_Lexorder"
begin

section \<open>The rating service of op_elo_backend\<close>

text \<open>
  The repository is an Express application over a PostgreSQL table \<open>characters\<close>.
  The source tree holds three revisions of the rating handler \<open>updateCharacterElo\<close>:
  \<open>src/index.js:61\<close> (absolute overwrite of \<open>wins\<close>, \<open>losses\<close>, \<open>elo\<close>),
  \<open>src/scraper.js:300\<close> and \<open>src/scraper.js:549\<close> (relative update of the
  \<open>*_change\<close> fields). This development embeds the last one, which is the one that
  accepts the request fields \<open>wins_change\<close>, \<open>losses_change\<close>,
  \<open>elo_change\<close>, \<open>recent_change\<close>, together with \<open>calculateChange\<close>
  (\<open>src/scraper.js:504\<close>), \<open>scrapeAndSaveCharacters\<close>,
  \<open>scrapeCharacterImage\<close>, \<open>updateCharacterImages\<close> (\<open>src/scraper.js:79-221\<close>)
  and the route handler of \<open>POST /update-character-images\<close> (\<open>src/scraper.js:648\<close>).

  Conventions of the embedding:
  \<^item> a JavaScript number is an \<open>int\<close>: the model covers integer values.
    \<open>calculateChange\<close> adds them exactly, which is what the code does as long as the
    sum has a magnitude of at most \<open>2^53\<close>; \<open>calculateChange_double\<close> is the
    function on all integer-valued numbers, with the rounding of the sum;
  \<^item> a JavaScript string is a \<open>string\<close> whose characters are the code units below 256;
  \<^item> what PostgreSQL, the network and the clock decide is an explicit input: whether a
    query fails, which identifier a new row receives, what a page request returns.
\<close>

subsection \<open>calculateChange\<close>

text \<open>
  \<^verbatim>\<open>
  function calculateChange(eloChange, recentChange) {
    if ((eloChange >= 0 && recentChange >= 0) || (eloChange <= 0 && recentChange <= 0)) {
      return recentChange + eloChange;
    } else {
      return eloChange;
    }
  }
  \<close>
\<close>

definition calculateChange :: "int \<Rightarrow> int \<Rightarrow> int" where
  "calculateChange eloChange recentChange =
     (if (eloChange \<ge> 0 \<and> recentChange \<ge> 0) \<or> (eloChange \<le> 0 \<and> recentChange \<le> 0)
      then recentChange + eloChange
      else eloChange)"

subsection \<open>calculateChange on doubles\<close>

text \<open>
  A JavaScript number is an IEEE 754 double: a significand of 53 bits. An integer of
  magnitude up to \<open>2^53 = 9007199254740992\<close> is a double; beyond, the doubles are the
  multiples of \<open>quantum\<close>, the power of two that leaves 53 bits.
\<close>

function quantum :: "int \<Rightarrow> int" where
  "quantum a = (if a < 9007199254740992 then 1 else 2 * quantum (a div 2))"
  by pat_completeness auto
termination
  by (relation "measure nat") auto

declare quantum.simps [simp del]

text \<open>
  The double that an integer rounds to, to the nearest and on a tie to the even
  significand; \<open>None\<close> when the rounded magnitude reaches \<open>2^1024\<close>: the number is
  then \<open>Infinity\<close> or \<open>-Infinity\<close>.
\<close>

definition roundToDouble :: "int \<Rightarrow> int option" where
  "roundToDouble n =
     (if \<bar>n\<bar> \<le> 9007199254740992 then Some n
      else
        let a = \<bar>n\<bar>;
            q = quantum a;
            m = a div q;
            r = a mod q;
            m' = (if 2 * r > q \<or> (2 * r = q \<and> odd m) then m + 1 else m)
        in if m' * q \<ge> 2 ^ 1024 then None else Some (sgn n * (m' * q)))"

text \<open>
  \<open>calculateChange\<close> (\<open>src/scraper.js:504\<close>) on two integer-valued doubles:
  \<open>recentChange + eloChange\<close> is the sum rounded to a double.
\<close>

definition calculateChange_double :: "int \<Rightarrow> int \<Rightarrow> int option" where
  "calculateChange_double eloChange recentChange =
     (if (eloChange \<ge> 0 \<and> recentChange \<ge> 0) \<or> (eloChange \<le> 0 \<and> recentChange \<le> 0)
      then roundToDouble (recentChange + eloChange)
      else Some eloChange)"

subsection \<open>Strings\<close>

text \<open>
  The white space that \<open>String.prototype.trim\<close> and \<open>parseInt\<close> strip, among the
  code units below 256: TAB, LF, VT, FF, CR, SP and NBSP.
\<close>

definition isWhiteSpace :: "char \<Rightarrow> bool" where
  "isWhiteSpace c =
     (c \<in> set [CHR 0x09, CHR 0x0A, CHR 0x0B, CHR 0x0C, CHR 0x0D, CHR 0x20, CHR 0xA0])"

definition trim :: "string \<Rightarrow> string" where
  "trim s = rev (dropWhile isWhiteSpace (rev (dropWhile isWhiteSpace s)))"

text \<open>\<open>Array.prototype.join\<close> on an array of strings.\<close>

fun join :: "string \<Rightarrow> string list \<Rightarrow> string" where
  "join sep [] = []"
| "join sep [x] = x"
| "join sep (x # y # ys) = x @ sep @ join sep (y # ys)"

subsection \<open>Request values\<close>

text \<open>
  A value of a request body field: absent (\<open>undefined\<close> after destructuring), a number, or a
  value whose numeric conversion is \<open>NaN\<close> (a string such as \<open>"abc"\<close>, an object).
  Values that are not numbers and yet convert to one (\<open>null\<close>, booleans, numeric strings)
  are not represented.
\<close>

datatype jsvalue = Undefined | Num int | NonNumeric

text \<open>
  \<open>request.body\<close> is the object's own properties, each name once, in the order of
  \<open>Object.keys\<close>; reading a property that the object lacks yields \<open>undefined\<close>.
\<close>

definition property :: "(string \<times> jsvalue) list \<Rightarrow> string \<Rightarrow> jsvalue" where
  "property obj k = (case map_of obj k of None \<Rightarrow> Undefined | Some v \<Rightarrow> v)"

fun toNumber :: "jsvalue \<Rightarrow> int option" where
  "toNumber Undefined = None"
| "toNumber (Num n) = Some n"
| "toNumber NonNumeric = None"

definition isNaN :: "jsvalue \<Rightarrow> bool" where
  "isNaN v = (toNumber v = None)"

subsection \<open>The table and the responses\<close>

text \<open>
  The object that \<open>scrapeOnePieceCharacters\<close> builds for a character, and a row of the
  table \<open>characters\<close>: the same columns and the identifier \<open>id\<close>, which the
  database generates. \<open>None\<close> is SQL \<open>NULL\<close> (JavaScript \<open>null\<close> or
  \<open>undefined\<close> as a query parameter).
\<close>

record entry =
  first_name :: string
  last_name :: "string option"
  title :: "string option"
  image_path :: "string option"
  elo :: int
  rank :: int
  recent_change :: int
  wins :: int
  losses :: int

record character = entry +
  id_col :: string

text \<open>A JavaScript \<open>Error\<close> with its message.\<close>

datatype error = Error string

record summary =
  total :: nat
  updated :: nat
  skipped :: nat
  failed :: nat
  timestamp :: string

text \<open>The JSON bodies the handlers send, and a response: its status and its body.\<close>

datatype payload =
    ErrorBody string string
  | InvalidFieldsBody string string "string list"
  | CharacterBody string character
  | SummaryBody string summary

datatype response = Response nat payload

subsection \<open>updateCharacterElo\<close>

definition allowedFields :: "string list" where
  "allowedFields = [''wins_change'', ''losses_change'', ''elo_change'', ''recent_change'']"

text \<open>
  \<^verbatim>\<open>
  UPDATE characters
  SET wins = wins + $1, losses = losses + $2, elo = elo + $3, recent_change = $4
  WHERE id = $5
  RETURNING *
  \<close>
  One statement: it fails as a whole (\<open>fails\<close> is the driver's error, the table is as
  before) or it updates every row whose \<open>id\<close> is \<open>$5\<close> and returns the updated rows.
\<close>

definition update_elo_query ::
  "error option \<Rightarrow> int \<Rightarrow> int \<Rightarrow> int \<Rightarrow> int \<Rightarrow> string \<Rightarrow> character list
     \<Rightarrow> (error + character list) \<times> character list" where
  "update_elo_query fails p1 p2 p3 p4 p5 rows =
     (let set_row = (\<lambda>r. r\<lparr>wins := wins r + p1, losses := losses r + p2,
                             elo := elo r + p3, recent_change := p4\<rparr>)
      in case fails of
           Some e \<Rightarrow> (Inl e, rows)
         | None \<Rightarrow>
             (Inr (map set_row (filter (\<lambda>r. id_col r = p5) rows)),
              map (\<lambda>r. if id_col r = p5 then set_row r else r) rows))"

text \<open>
  The handler of \<open>PUT /characters/:id/elo\<close> (\<open>src/scraper.js:549\<close>). Its inputs:
  the error of the storage query if it fails, \<open>request.params.id\<close>,
  \<open>request.body\<close> and the table; its results: the response and the table.
\<close>

definition updateCharacterElo ::
  "error option \<Rightarrow> string \<Rightarrow> (string \<times> jsvalue) list \<Rightarrow> character list
     \<Rightarrow> response \<times> character list" where
  "updateCharacterElo query_error ident body rows =
     (let wins_change = property body ''wins_change'';
          losses_change = property body ''losses_change'';
          elo_change = property body ''elo_change'';
          recent_change_v = property body ''recent_change''
      in
      if ident = [] \<or> trim ident = [] then
        (Response 400 (ErrorBody ''Invalid input'' ''Character ID is required''), rows)
      else if wins_change = Undefined \<or> losses_change = Undefined
              \<or> elo_change = Undefined \<or> recent_change_v = Undefined then
        (Response 400 (ErrorBody ''Missing required fields''
           ''All fields are required: wins_change, losses_change, elo_change, recent_change''),
         rows)
      else if isNaN wins_change \<or> isNaN losses_change
              \<or> isNaN elo_change \<or> isNaN recent_change_v then
        (Response 400 (ErrorBody ''Invalid input'' ''All change values must be numbers''), rows)
      else
        let providedFields = map fst body;
            invalidFields = filter (\<lambda>field. field \<notin> set allowedFields) providedFields
        in
        if length invalidFields > 0 then
          (Response 400 (InvalidFieldsBody ''Invalid fields provided''
             (''Only these fields are allowed: '' @ join '', '' allowedFields) invalidFields),
           rows)
        else
          let last_change = calculateChange (the (toNumber elo_change))
                              (the (toNumber recent_change_v))
          in
          case update_elo_query query_error (the (toNumber wins_change))
                 (the (toNumber losses_change)) (the (toNumber elo_change)) last_change
                 ident rows of
            (Inl e, rows') \<Rightarrow>
              (Response 500 (ErrorBody ''Database error'' ''Failed to update character''), rows')
          | (Inr results, rows') \<Rightarrow>
              if length results = 0 then
                (Response 404 (ErrorBody ''Character not found''
                   (''No character found with id: '' @ ident)), rows')
              else
                (Response 200 (CharacterBody ''Character ELO updated successfully''
                   (hd results)), rows'))"

subsection \<open>scrapeAndSaveCharacters\<close>

text \<open>
  \<^verbatim>\<open>
  INSERT INTO characters (first_name, last_name, title, image_path, elo, rank,
                          recent_change, wins, losses)
  VALUES ($1, $2, $3, $4, $5, $6, $7, $8, $9)
  \<close>
  The statement names no \<open>id\<close>: the new row's identifier is the one the database
  generates, here \<open>new_id\<close>. The columns are the ones the statement names; on a
  table that lacks one of them (\<open>CREATE TABLE\<close> in \<open>src/index.js:246\<close> names
  \<open>rating\<close>, not \<open>rank\<close>) the statement fails, which is an input of the loop
  below.
\<close>

definition insert_row :: "string \<Rightarrow> entry \<Rightarrow> character" where
  "insert_row new_id c =
     \<lparr>first_name = first_name c, last_name = last_name c, title = title c,
      image_path = image_path c, elo = elo c, rank = rank c,
      recent_change = recent_change c, wins = wins c, losses = losses c,
      id_col = new_id\<rparr>"

text \<open>
  The loop \<open>for (const character of characters) await pool.query(INSERT ...)\<close>.
  \<open>query_error k\<close> is the error of the \<open>k\<close>-th query of the call, if it fails, and
  \<open>generated_id k\<close> the identifier the database gives the row that query inserts. A
  failing query throws: the loop stops and the rows inserted so far stay.
\<close>

fun insert_characters ::
  "(nat \<Rightarrow> error option) \<Rightarrow> (nat \<Rightarrow> string) \<Rightarrow> nat \<Rightarrow> entry list \<Rightarrow> character list
     \<Rightarrow> error option \<times> character list" where
  "insert_characters query_error generated_id k [] rows = (None, rows)"
| "insert_characters query_error generated_id k (c # cs) rows =
     (case query_error k of
        Some e \<Rightarrow> (Some e, rows)
      | None \<Rightarrow>
          insert_characters query_error generated_id (Suc k) cs
            (rows @ [insert_row (generated_id k) c]))"

text \<open>
  \<open>scrapeAndSaveCharacters\<close> (\<open>src/scraper.js:79\<close>). \<open>scraped\<close> is what
  \<open>scrapeOnePieceCharacters\<close> does: it throws or returns the characters. Query 0 is
  \<open>DELETE FROM characters\<close>, queries 1, 2, ... are the inserts. The result is the
  thrown error or the returned array, and the table.
\<close>

definition scrapeAndSaveCharacters ::
  "error + entry list \<Rightarrow> (nat \<Rightarrow> error option) \<Rightarrow> (nat \<Rightarrow> string) \<Rightarrow> character list
     \<Rightarrow> (error + entry list) \<times> character list" where
  "scrapeAndSaveCharacters scraped query_error generated_id rows =
     (case scraped of
        Inl e \<Rightarrow> (Inl e, rows)
      | Inr characters \<Rightarrow>
          if length characters = 0 then (Inr characters, rows)
          else
            (case query_error 0 of
               Some e \<Rightarrow> (Inl e, rows)
             | None \<Rightarrow>
                 (case insert_characters query_error generated_id 1 characters [] of
                    (Some e, rows') \<Rightarrow> (Inl e, rows')
                  | (None, rows') \<Rightarrow> (Inr characters, rows'))))"

subsection \<open>scrapeCharacterImage\<close>

text \<open>
  What the request for a character's page gives: \<open>axios.get\<close> or the parser throws, or
  there is a document, of which the function reads the first \<open>img.pi-image-thumbnail\<close>
  element, if any, through its attributes \<open>src\<close> and \<open>data-src\<close> (\<open>None\<close>: the
  attribute is absent).
\<close>

datatype page_fetch =
    RequestFailed error
  | Page "(string option \<times> string option) option"

text \<open>A string or \<open>undefined\<close>/\<open>null\<close> as a condition, and \<open>a || b\<close> on two of them.\<close>

definition truthy :: "string option \<Rightarrow> bool" where
  "truthy a = (case a of None \<Rightarrow> False | Some s \<Rightarrow> s \<noteq> [])"

definition or_else :: "string option \<Rightarrow> string option \<Rightarrow> string option" where
  "or_else a b = (if truthy a then a else b)"

text \<open>
  \<open>scrapeCharacterImage\<close> (\<open>src/scraper.js:122\<close>): the image URL or \<open>null\<close>. The
  function requests the page whose URL it derives from the character's name; the model
  takes the answer to that request as its argument. The \<open>catch\<close> of the function turns
  every error into \<open>null\<close>.
\<close>

definition scrapeCharacterImage :: "page_fetch \<Rightarrow> string option" where
  "scrapeCharacterImage response =
     (case response of
        RequestFailed e \<Rightarrow> None
      | Page thumbnailImg \<Rightarrow>
          (case thumbnailImg of
             None \<Rightarrow> None
           | Some (src, data_src) \<Rightarrow>
               (let imageUrl = or_else src data_src
                in if truthy imageUrl then imageUrl else None)))"

subsection \<open>updateCharacterImages\<close>

text \<open>
  What the run meets outside the program: the error of the \<open>SELECT\<close> if it fails, the
  answer to the page request made for a selected row, the error of the \<open>UPDATE\<close> made
  for a selected row if it fails, and the clock at the end.
\<close>

record backfill_env =
  select_error :: "error option"
  axios_get :: "character \<Rightarrow> page_fetch"
  update_error :: "character \<Rightarrow> error option"
  now :: string

text \<open>
  What the loop does for one character, as its log lines tell: the row, the timer it
  awaited before the request, if any, and which of the three counters it incremented.
\<close>

datatype outcome = Updated | Skipped | Failed

record report =
  subject :: character
  waited :: "int option"
  classified :: outcome

text \<open>\<open>UPDATE characters SET image_path = $1 WHERE id = $2\<close>\<close>

definition update_image_query :: "string \<Rightarrow> string \<Rightarrow> character list \<Rightarrow> character list" where
  "update_image_query p1 p2 rows =
     map (\<lambda>r. if id_col r = p2 then r\<lparr>image_path := Some p1\<rparr> else r) rows"

text \<open>
  The loop of \<open>updateCharacterImages\<close> (\<open>src/scraper.js:178-204\<close>) over the selected
  rows, with the counters, the reports so far and the table. The \<open>catch\<close> of the loop
  body is reached by a failing \<open>UPDATE\<close> only: \<open>scrapeCharacterImage\<close> does not throw.
\<close>

fun image_loop ::
  "backfill_env \<Rightarrow> int \<Rightarrow> character list \<Rightarrow> nat \<Rightarrow> nat \<Rightarrow> nat \<Rightarrow> report list
     \<Rightarrow> character list \<Rightarrow> (nat \<times> nat \<times> nat) \<times> report list \<times> character list" where
  "image_loop env delay [] n_updated n_skipped n_failed reports rows =
     ((n_updated, n_skipped, n_failed), reports, rows)"
| "image_loop env delay (character # rest) n_updated n_skipped n_failed reports rows =
     (let timer = (if delay > 0 then Some delay else None);
          imageUrl = scrapeCharacterImage (axios_get env character)
      in
      if truthy imageUrl then
        (case update_error env character of
           Some e \<Rightarrow>
             image_loop env delay rest n_updated n_skipped (n_failed + 1)
               (reports @ [\<lparr>subject = character, waited = timer, classified = Failed\<rparr>])
               rows
         | None \<Rightarrow>
             image_loop env delay rest (n_updated + 1) n_skipped n_failed
               (reports @ [\<lparr>subject = character, waited = timer, classified = Updated\<rparr>])
               (update_image_query (the imageUrl) (id_col character) rows))
      else
        image_loop env delay rest n_updated (n_skipped + 1) n_failed
          (reports @ [\<lparr>subject = character, waited = timer, classified = Skipped\<rparr>])
          rows)"

text \<open>
  \<open>updateCharacterImages(pool, delay = 1000)\<close> (\<open>src/scraper.js:164\<close>):
  \<open>delay_arg = None\<close> is the call without the argument. The rows are selected
  \<open>ORDER BY first_name\<close>, here in the order of the code units (the collation of the
  database decides the real order; no property below depends on it). The result is the
  thrown error or the summary, the reports and the table.
\<close>

definition updateCharacterImages ::
  "backfill_env \<Rightarrow> int option \<Rightarrow> character list
     \<Rightarrow> (error + summary) \<times> report list \<times> character list" where
  "updateCharacterImages env delay_arg rows =
     (let delay = (case delay_arg of None \<Rightarrow> 1000 | Some d \<Rightarrow> d)
      in case select_error env of
           Some e \<Rightarrow> (Inl e, [], rows)
         | None \<Rightarrow>
             (let characters = sort_key first_name rows
              in case image_loop env delay characters 0 0 0 [] rows of
                   ((n_updated, n_skipped, n_failed), reports, rows') \<Rightarrow>
                     (Inr \<lparr>total = length characters, updated = n_updated,
                           skipped = n_skipped, failed = n_failed,
                           timestamp = now env\<rparr>,
                      reports, rows')))"

text \<open>
  \<open>updateCharacterImagesFromPages(pool, delay = 1000)\<close> (\<open>src/index.js:290\<close>) passes
  its delay on and rethrows.
\<close>

definition updateCharacterImagesFromPages ::
  "backfill_env \<Rightarrow> int option \<Rightarrow> character list
     \<Rightarrow> (error + summary) \<times> report list \<times> character list" where
  "updateCharacterImagesFromPages env delay_arg rows =
     (let delay = (case delay_arg of None \<Rightarrow> 1000 | Some d \<Rightarrow> d)
      in updateCharacterImages env (Some delay) rows)"

subsection \<open>The route \<open>POST /update-character-images\<close>\<close>

text \<open>
  \<open>parseInt(string)\<close> with no radix: leading white space, a sign, \<open>0x\<close> or \<open>0X\<close>
  for radix 16, then the longest run of digits of the radix; \<open>None\<close> is \<open>NaN\<close>.
\<close>

definition digitValue :: "char \<Rightarrow> nat option" where
  "digitValue c =
     (let n = (of_char c :: nat)
      in if 48 \<le> n \<and> n \<le> 57 then Some (n - 48)
         else if 97 \<le> n \<and> n \<le> 122 then Some (n - 87)
         else if 65 \<le> n \<and> n \<le> 90 then Some (n - 55)
         else None)"

definition isRadixDigit :: "nat \<Rightarrow> char \<Rightarrow> bool" where
  "isRadixDigit R c = (case digitValue c of None \<Rightarrow> False | Some v \<Rightarrow> v < R)"

definition parseInt :: "string \<Rightarrow> int option" where
  "parseInt inputString =
     (let S = dropWhile isWhiteSpace inputString;
          sign = (if S \<noteq> [] \<and> hd S = CHR ''-'' then - 1 else 1 :: int);
          S1 = (if S \<noteq> [] \<and> (hd S = CHR ''+'' \<or> hd S = CHR ''-'') then tl S else S);
          hex = (take 2 S1 = ''0x'' \<or> take 2 S1 = ''0X'');
          R = (if hex then 16 else 10 :: nat);
          S2 = (if hex then drop 2 S1 else S1);
          Z = takeWhile (isRadixDigit R) S2
      in if Z = [] then None
         else Some (sign * int (foldl (\<lambda>a c. a * R + the (digitValue c)) 0 Z)))"

text \<open>\<open>x || d\<close> for a number \<open>x\<close>: \<open>NaN\<close> and 0 are falsy.\<close>

definition or_default :: "int option \<Rightarrow> int \<Rightarrow> int" where
  "or_default x d = (case x of None \<Rightarrow> d | Some n \<Rightarrow> if n = 0 then d else n)"

text \<open>
  The route handler \<open>updateCharacterImages\<close> (\<open>src/scraper.js:648\<close>).
  \<open>query_delay\<close> is \<open>request.query.delay\<close>: a string, or \<open>None\<close> when the URL
  has no such parameter (\<open>parseInt\<close> then reads the text \<open>undefined\<close>).
\<close>

definition updateCharacterImages_route ::
  "backfill_env \<Rightarrow> string option \<Rightarrow> character list
     \<Rightarrow> response \<times> report list \<times> character list" where
  "updateCharacterImages_route env query_delay rows =
     (let delay = or_default
            (parseInt (case query_delay of None \<Rightarrow> ''undefined'' | Some s \<Rightarrow> s)) 1000
      in case updateCharacterImagesFromPages env (Some delay) rows of
           (Inr result, reports, rows') \<Rightarrow>
             (Response 200 (SummaryBody ''Character images updated successfully'' result),
              reports, rows')
         | (Inl (Error message), reports, rows') \<Rightarrow>
             (Response 500 (ErrorBody ''Failed to update character images'' message),
              reports, rows'))"

subsection \<open>Sample data\<close>

definition luffy :: character where
  "luffy = \<lparr>first_name = ''Luffy'', last_name = Some [], title = Some [],
     image_path = None, elo = 1000, rank = 1000, recent_change = 3, wins = 2, losses = 1,
     id_col = ''a1''\<rparr>"

definition ace :: character where
  "ace = \<lparr>first_name = ''Ace'', last_name = Some [], title = Some [],
     image_path = Some ''old.png'', elo = 990, rank = 1000, recent_change = - 10, wins = 0,
     losses = 1, id_col = ''a2''\<rparr>"

definition deltas :: "(string \<times> jsvalue) list" where
  "deltas = [(''wins_change'', Num 1), (''losses_change'', Num 0), (''elo_change'', Num 5),
     (''recent_change'', Num 3)]"

definition nami :: character where
  "nami = \<lparr>first_name = ''Nami'', last_name = Some [], title = Some [],
     image_path = None, elo = 1000, rank = 1000, recent_change = 0, wins = 0, losses = 0,
     id_col = ''a3''\<rparr>"

text \<open>
  A run in which the request for Luffy's page fails, Ace's page has no thumbnail element
  and Nami's page has one with a lazy-load attribute only.
\<close>

definition web :: backfill_env where
  "web = \<lparr>select_error = None,
     axios_get = (\<lambda>c. if first_name c = ''Luffy'' then RequestFailed (Error ''timeout'')
                      else if first_name c = ''Ace'' then Page None
                      else Page (Some (None, Some ''nami.png''))),
     update_error = (\<lambda>c. None),
     now = ''2025-01-01T00:00:00.000Z''\<rparr>"

text \<open>
  Two entries with different values in every column (\<open>scrapeOnePieceCharacters\<close>
  itself fills the last seven columns with constants).
\<close>

definition usopp :: entry where
  "usopp = \<lparr>first_name = ''Usopp'', last_name = Some ''Sogeking'', title = Some ''Sniper'',
     image_path = Some ''usopp.png'', elo = 1011, rank = 12, recent_change = 13, wins = 14,
     losses = 15\<rparr>"

definition robin :: entry where
  "robin = \<lparr>first_name = ''Nico Robin'', last_name = None, title = Some [],
     image_path = None, elo = 1021, rank = 22, recent_change = - 23, wins = 24,
     losses = 25\<rparr>"

text \<open>A second request body with \<open>wins_change = 1\<close>, its fields in another order.\<close>

definition deltas_loss :: "(string \<times> jsvalue) list" where
  "deltas_loss = [(''recent_change'', Num 8), (''elo_change'', Num (- 7)),
     (''losses_change'', Num 1), (''wins_change'', Num 1)]"

section \<open>Properties\<close>

subsection \<open>The trend accumulator\<close>


lemma calculateChange_double_exact:
  "\<bar>ratingDelta + priorTrend\<bar> \<le> 9007199254740992 \<Longrightarrow>
   calculateChange_double ratingDelta priorTrend = Some (calculateChange ratingDelta priorTrend)"
  by (simp add: calculateChange_double_def calculateChange_def roundToDouble_def add.commute)




text \<open>
  C10: for a nonzero rating delta \<open>d\<close> and any prior trend \<open>t\<close>, the merged trend has
  the sign of \<open>d\<close> and a magnitude of at least \<open>\<bar>d\<bar>\<close>.
\<close>

theorem calculateChange_sign_magnitude:
  assumes "d \<noteq> 0"
  shows "sgn (calculateChange d t) = sgn d \<and> \<bar>d\<bar> \<le> \<bar>calculateChange d t\<bar>"
proof (cases "0 < d")
  case True
  then show ?thesis
    by (cases "0 \<le> t") (simp_all add: calculateChange_def)
next
  case False
  with assms have neg: "d < 0" by simp
  then show ?thesis
    by (cases "t \<le> 0") (simp_all add: calculateChange_def)
qed

theorem calculateChange_sign_magnitude_witness:
  "sgn (calculateChange (- 4) (- 6)) = sgn (- 4 :: int)
   \<and> \<bar>- 4 :: int\<bar> \<le> \<bar>calculateChange (- 4) (- 6)\<bar>
   \<and> calculateChange (- 4) (- 6) = - 10
   \<and> sgn (calculateChange 4 (- 6)) = sgn (4 :: int)
   \<and> \<bar>4 :: int\<bar> \<le> \<bar>calculateChange 4 (- 6)\<bar>
   \<and> calculateChange 4 (- 6) = 4"
  using calculateChange_sign_magnitude [of "- 4" "- 6"]
    calculateChange_sign_magnitude [of 4 "- 6"]
  by (simp add: calculateChange_def)

subsection \<open>The rating update\<close>

lemma trim_Nil: "trim [] = []"
  by (simp add: trim_def)

lemma map_no_match:
  "\<forall>r \<in> set rows. id_col r \<noteq> ident \<Longrightarrow>
   map (\<lambda>r. if id_col r = ident then f r else r) rows = rows"
  by (induction rows) auto

lemma updateCharacterElo_blank_id:
  "ident = [] \<or> trim ident = [] \<Longrightarrow>
   updateCharacterElo query_error ident body rows =
     (Response 400 (ErrorBody ''Invalid input'' ''Character ID is required''), rows)"
  by (simp add: updateCharacterElo_def Let_def)

text \<open>
  C2, amended: for a request whose \<open>id\<close> is not blank and whose body holds exactly the
  four fields \<open>wins_change\<close>, \<open>losses_change\<close>, \<open>elo_change\<close>,
  \<open>recent_change\<close>, each a number, and whose storage query does not fail: if a record
  has this \<open>id\<close>, the records with this \<open>id\<close> have \<open>wins\<close>, \<open>losses\<close> and
  \<open>elo\<close> incremented by the deltas and \<open>recent_change\<close> set to
  \<open>calculateChange ratingDelta rawRecentChange\<close>, every other record is as before, and
  the response is 200 with the updated record; if no record has this \<open>id\<close>, the response
  is 404 and the table is as before.
\<close>

theorem updateCharacterElo_relative_update:
  assumes nonblank: "trim ident \<noteq> []"
    and w: "map_of body ''wins_change'' = Some (Num winsDelta)"
    and l: "map_of body ''losses_change'' = Some (Num lossesDelta)"
    and e: "map_of body ''elo_change'' = Some (Num ratingDelta)"
    and r: "map_of body ''recent_change'' = Some (Num rawRecentChange)"
    and exact: "set (map fst body) \<subseteq> set allowedFields"
  shows "updateCharacterElo None ident body rows =
     (let upd = (\<lambda>r. r\<lparr>wins := wins r + winsDelta, losses := losses r + lossesDelta,
                        elo := elo r + ratingDelta,
                        recent_change := calculateChange ratingDelta rawRecentChange\<rparr>)
      in if \<exists>r \<in> set rows. id_col r = ident
         then (Response 200 (CharacterBody ''Character ELO updated successfully''
                 (upd (hd (filter (\<lambda>r. id_col r = ident) rows)))),
               map (\<lambda>r. if id_col r = ident then upd r else r) rows)
         else (Response 404 (ErrorBody ''Character not found''
                 (''No character found with id: '' @ ident)), rows))"
proof -
  from nonblank have ne: "ident \<noteq> []" by (auto simp: trim_Nil)
  from exact have noextra: "filter (\<lambda>field. field \<notin> set allowedFields) (map fst body) = []"
    by (auto simp: filter_empty_conv)
  show ?thesis
  proof (cases "\<exists>r \<in> set rows. id_col r = ident")
    case True
    then have "filter (\<lambda>r. id_col r = ident) rows \<noteq> []"
      by (auto simp: filter_empty_conv)
    with True show ?thesis
      using nonblank ne noextra w l e r
      by (simp add: updateCharacterElo_def update_elo_query_def property_def isNaN_def
          Let_def hd_map)
  next
    case False
    then have "filter (\<lambda>r. id_col r = ident) rows = []"
      by (auto simp: filter_empty_conv)
    moreover from False have "\<And>f. map (\<lambda>r. if id_col r = ident then f r else r) rows = rows"
      by (intro map_no_match) auto
    ultimately show ?thesis
      using False nonblank ne noextra w l e r
      by (simp add: updateCharacterElo_def update_elo_query_def property_def isNaN_def
          Let_def)
  qed
qed

theorem updateCharacterElo_relative_update_witness:
  "updateCharacterElo None ''a1'' deltas [luffy, ace] =
     (Response 200 (CharacterBody ''Character ELO updated successfully''
        (luffy\<lparr>wins := 3, losses := 1, elo := 1005, recent_change := 8\<rparr>)),
      [luffy\<lparr>wins := 3, losses := 1, elo := 1005, recent_change := 8\<rparr>, ace])
   \<and> updateCharacterElo None ''a2'' deltas [luffy, ace] =
     (Response 200 (CharacterBody ''Character ELO updated successfully''
        (ace\<lparr>wins := 1, losses := 1, elo := 995, recent_change := 8\<rparr>)),
      [luffy, ace\<lparr>wins := 1, losses := 1, elo := 995, recent_change := 8\<rparr>])
   \<and> updateCharacterElo None ''b7'' deltas [luffy, ace] =
     (Response 404 (ErrorBody ''Character not found'' ''No character found with id: b7''),
      [luffy, ace])"
proof -
  have t: "trim ''a1'' \<noteq> []" "trim ''a2'' \<noteq> []" "trim ''b7'' \<noteq> []"
    by (simp_all add: trim_def isWhiteSpace_def)
  have w: "map_of deltas ''wins_change'' = Some (Num 1)"
    and l: "map_of deltas ''losses_change'' = Some (Num 0)"
    and e: "map_of deltas ''elo_change'' = Some (Num 5)"
    and r: "map_of deltas ''recent_change'' = Some (Num 3)"
    and x: "set (map fst deltas) \<subseteq> set allowedFields"
    by (simp_all add: deltas_def allowedFields_def)
  show ?thesis
    using updateCharacterElo_relative_update [OF t(1) w l e r x, of "[luffy, ace]"]
      updateCharacterElo_relative_update [OF t(2) w l e r x, of "[luffy, ace]"]
      updateCharacterElo_relative_update [OF t(3) w l e r x, of "[luffy, ace]"]
    by (simp add: luffy_def ace_def calculateChange_def)
qed

text \<open>
  The claim as stated fails for a blank \<open>id\<close> (\<open>PUT /characters/%20/elo\<close>): no record
  matches it, and the response is 400, not 404.
\<close>

theorem updateCharacterElo_blank_id_counterexample:
  "filter (\<lambda>r. id_col r = '' '') [luffy, ace] = []
   \<and> updateCharacterElo None '' '' deltas [luffy, ace] =
     (Response 400 (ErrorBody ''Invalid input'' ''Character ID is required''), [luffy, ace])"
  by (simp add: updateCharacterElo_def trim_def isWhiteSpace_def luffy_def ace_def)

text \<open>
  C4, amended: for a request whose \<open>id\<close> is not blank and whose body omits one of the
  four required fields, the response is 400 with the error \<open>Missing required fields\<close> and
  a fixed message that names all four required fields, whichever field is omitted, and the
  table is as before. The error differs from the \<open>Invalid fields provided\<close> of the
  unexpected-field rule.
\<close>

theorem updateCharacterElo_missing_field:
  assumes nonblank: "trim ident \<noteq> []"
    and req: "field \<in> set allowedFields"
    and omitted: "map_of body field = None"
  shows "updateCharacterElo query_error ident body rows =
     (Response 400 (ErrorBody ''Missing required fields''
        ''All fields are required: wins_change, losses_change, elo_change, recent_change''),
      rows)"
proof -
  from nonblank have ne: "ident \<noteq> []" by (auto simp: trim_Nil)
  from req omitted have
    "property body ''wins_change'' = Undefined \<or> property body ''losses_change'' = Undefined
     \<or> property body ''elo_change'' = Undefined \<or> property body ''recent_change'' = Undefined"
    by (auto simp: allowedFields_def property_def)
  with nonblank ne show ?thesis
    by (simp add: updateCharacterElo_def Let_def)
qed

theorem updateCharacterElo_missing_field_witness:
  "updateCharacterElo None ''a1''
     [(''wins_change'', Num 1), (''losses_change'', Num 0), (''recent_change'', Num 3)]
     [luffy, ace] =
   (Response 400 (ErrorBody ''Missing required fields''
      ''All fields are required: wins_change, losses_change, elo_change, recent_change''),
    [luffy, ace])"
proof -
  have t: "trim ''a1'' \<noteq> []"
    by (simp add: trim_def isWhiteSpace_def)
  have f: "''elo_change'' \<in> set allowedFields"
    by (simp add: allowedFields_def)
  have m: "map_of [(''wins_change'', Num 1), (''losses_change'', Num 0),
      (''recent_change'', Num 3)] ''elo_change'' = None"
    by simp
  show ?thesis
    using updateCharacterElo_missing_field [OF t f m, of None "[luffy, ace]"] by simp
qed

text \<open>
  The claim as stated fails: the response to a body without \<open>elo_change\<close> and the
  response to a body without \<open>wins_change\<close> are the same, so neither lists exactly the
  omitted field.
\<close>

theorem updateCharacterElo_missing_field_counterexample:
  "updateCharacterElo None ''a1''
     [(''wins_change'', Num 1), (''losses_change'', Num 0), (''recent_change'', Num 3)]
     [luffy, ace] =
   (Response 400 (ErrorBody ''Missing required fields''
      ''All fields are required: wins_change, losses_change, elo_change, recent_change''),
    [luffy, ace])
   \<and> updateCharacterElo None ''a1''
     [(''losses_change'', Num 0), (''elo_change'', Num 5), (''recent_change'', Num 3)]
     [luffy, ace] =
   (Response 400 (ErrorBody ''Missing required fields''
      ''All fields are required: wins_change, losses_change, elo_change, recent_change''),
    [luffy, ace])"
  by (simp add: updateCharacterElo_def trim_def isWhiteSpace_def property_def)

text \<open>
  C5, amended: for a request whose \<open>id\<close> is not blank: when its body holds the four
  required fields, each a number, and at least one field that is not among them, the
  response is 400 with the error \<open>Invalid fields provided\<close> and \<open>invalidFields\<close>
  the names of the body that are not allowed, in the order of \<open>Object.keys\<close>
  (\<open>["foo"]\<close> when \<open>foo\<close> is the only one), and the table is as before; when its
  body omits a required field, with \<open>foo\<close> or without, the response is the 400 of the
  missing-field rule, which does not list \<open>foo\<close>, and the table is as before.
\<close>

theorem updateCharacterElo_invalid_fields:
  assumes nonblank: "trim ident \<noteq> []"
  shows "(map_of body ''wins_change'' = Some (Num winsDelta) \<longrightarrow>
          map_of body ''losses_change'' = Some (Num lossesDelta) \<longrightarrow>
          map_of body ''elo_change'' = Some (Num ratingDelta) \<longrightarrow>
          map_of body ''recent_change'' = Some (Num rawRecentChange) \<longrightarrow>
          filter (\<lambda>field. field \<notin> set allowedFields) (map fst body) \<noteq> [] \<longrightarrow>
          updateCharacterElo query_error ident body rows =
            (Response 400 (InvalidFieldsBody ''Invalid fields provided''
               ''Only these fields are allowed: wins_change, losses_change, elo_change, recent_change''
               (filter (\<lambda>field. field \<notin> set allowedFields) (map fst body))),
             rows))
     \<and> (required \<in> set allowedFields \<longrightarrow> map_of body required = None \<longrightarrow>
          updateCharacterElo query_error ident body rows =
            (Response 400 (ErrorBody ''Missing required fields''
               ''All fields are required: wins_change, losses_change, elo_change, recent_change''),
             rows))"
proof (intro conjI impI)
  from nonblank have ne: "ident \<noteq> []" by (auto simp: trim_Nil)
  have msg: "''Only these fields are allowed: '' @ join '', '' allowedFields =
     ''Only these fields are allowed: wins_change, losses_change, elo_change, recent_change''"
    by (simp add: allowedFields_def)
  {
    assume w: "map_of body ''wins_change'' = Some (Num winsDelta)"
      and l: "map_of body ''losses_change'' = Some (Num lossesDelta)"
      and e: "map_of body ''elo_change'' = Some (Num ratingDelta)"
      and r: "map_of body ''recent_change'' = Some (Num rawRecentChange)"
      and extra: "filter (\<lambda>field. field \<notin> set allowedFields) (map fst body) \<noteq> []"
    from nonblank ne w l e r extra
    show "updateCharacterElo query_error ident body rows =
       (Response 400 (InvalidFieldsBody ''Invalid fields provided''
          ''Only these fields are allowed: wins_change, losses_change, elo_change, recent_change''
          (filter (\<lambda>field. field \<notin> set allowedFields) (map fst body))),
        rows)"
      unfolding msg [symmetric]
      by (simp add: updateCharacterElo_def property_def isNaN_def Let_def)
  }
  {
    assume req: "required \<in> set allowedFields" and omitted: "map_of body required = None"
    then have
      "property body ''wins_change'' = Undefined \<or> property body ''losses_change'' = Undefined
       \<or> property body ''elo_change'' = Undefined \<or> property body ''recent_change'' = Undefined"
      by (auto simp: allowedFields_def property_def)
    with nonblank ne
    show "updateCharacterElo query_error ident body rows =
       (Response 400 (ErrorBody ''Missing required fields''
          ''All fields are required: wins_change, losses_change, elo_change, recent_change''),
        rows)"
      by (simp add: updateCharacterElo_def Let_def)
  }
qed

theorem updateCharacterElo_invalid_fields_witness:
  "updateCharacterElo None ''a1'' ((''foo'', NonNumeric) # deltas) [luffy, ace] =
     (Response 400 (InvalidFieldsBody ''Invalid fields provided''
        ''Only these fields are allowed: wins_change, losses_change, elo_change, recent_change''
        [''foo'']),
      [luffy, ace])
   \<and> updateCharacterElo None ''a1''
       [(''wins_change'', Num 1), (''foo'', Num 2), (''losses_change'', Num 0),
        (''bar'', Num 3), (''elo_change'', Num 5), (''recent_change'', Num 3)] [luffy, ace] =
     (Response 400 (InvalidFieldsBody ''Invalid fields provided''
        ''Only these fields are allowed: wins_change, losses_change, elo_change, recent_change''
        [''foo'', ''bar'']),
      [luffy, ace])
   \<and> updateCharacterElo None ''a1''
       [(''foo'', Num 1), (''wins_change'', Num 1), (''losses_change'', Num 0),
        (''recent_change'', Num 3)] [luffy, ace] =
     (Response 400 (ErrorBody ''Missing required fields''
        ''All fields are required: wins_change, losses_change, elo_change, recent_change''),
      [luffy, ace])"
proof -
  let ?b1 = "(''foo'', NonNumeric) # deltas"
  let ?b2 = "[(''wins_change'', Num 1), (''foo'', Num 2), (''losses_change'', Num 0),
        (''bar'', Num 3), (''elo_change'', Num 5), (''recent_change'', Num 3)]"
  let ?b3 = "[(''foo'', Num 1), (''wins_change'', Num 1), (''losses_change'', Num 0),
        (''recent_change'', Num 3)]"
  have t: "trim ''a1'' \<noteq> []"
    by (simp add: trim_def isWhiteSpace_def)
  have x1: "filter (\<lambda>field. field \<notin> set allowedFields) (map fst ?b1) = [''foo'']"
    by (simp add: deltas_def allowedFields_def)
  have x2: "filter (\<lambda>field. field \<notin> set allowedFields) (map fst ?b2) = [''foo'', ''bar'']"
    by (simp add: allowedFields_def)
  have a: "updateCharacterElo None ''a1'' ?b1 [luffy, ace] =
     (Response 400 (InvalidFieldsBody ''Invalid fields provided''
        ''Only these fields are allowed: wins_change, losses_change, elo_change, recent_change''
        [''foo'']), [luffy, ace])"
    using updateCharacterElo_invalid_fields [OF t, of ?b1 1 0 5 3 None "[luffy, ace]"]
    unfolding x1 by (simp add: deltas_def)
  have b: "updateCharacterElo None ''a1'' ?b2 [luffy, ace] =
     (Response 400 (InvalidFieldsBody ''Invalid fields provided''
        ''Only these fields are allowed: wins_change, losses_change, elo_change, recent_change''
        [''foo'', ''bar'']), [luffy, ace])"
    using updateCharacterElo_invalid_fields [OF t, of ?b2 1 0 5 3 None "[luffy, ace]"]
    unfolding x2 by simp
  have c: "updateCharacterElo None ''a1'' ?b3 [luffy, ace] =
     (Response 400 (ErrorBody ''Missing required fields''
        ''All fields are required: wins_change, losses_change, elo_change, recent_change''),
      [luffy, ace])"
    using updateCharacterElo_invalid_fields [OF t, of ?b3 _ _ _ _ None "[luffy, ace]" "''elo_change''"]
    by (simp add: allowedFields_def)
  from a b c show ?thesis by simp
qed

text \<open>
  The claim as stated fails when a required field is absent: a body with \<open>foo\<close> alone,
  and a body with \<open>foo\<close> and three of the four required fields, get the
  missing-field response, which does not list \<open>foo\<close>.
\<close>

theorem updateCharacterElo_invalid_fields_counterexample:
  "updateCharacterElo None ''a1'' [(''foo'', Num 1)] [luffy, ace] =
     (Response 400 (ErrorBody ''Missing required fields''
        ''All fields are required: wins_change, losses_change, elo_change, recent_change''),
      [luffy, ace])
   \<and> updateCharacterElo None ''a1''
       [(''foo'', Num 1), (''wins_change'', Num 1), (''losses_change'', Num 0),
        (''elo_change'', Num 5)] [luffy, ace] =
     (Response 400 (ErrorBody ''Missing required fields''
        ''All fields are required: wins_change, losses_change, elo_change, recent_change''),
      [luffy, ace])"
  by (simp add: updateCharacterElo_def trim_def isWhiteSpace_def property_def)

lemma updateCharacterElo_table:
  assumes nonblank: "trim ident \<noteq> []"
    and w: "map_of body ''wins_change'' = Some (Num winsDelta)"
    and l: "map_of body ''losses_change'' = Some (Num lossesDelta)"
    and e: "map_of body ''elo_change'' = Some (Num ratingDelta)"
    and r: "map_of body ''recent_change'' = Some (Num rawRecentChange)"
    and exact: "set (map fst body) \<subseteq> set allowedFields"
  shows "snd (updateCharacterElo None ident body rows) =
     map (\<lambda>r. if id_col r = ident
               then r\<lparr>wins := wins r + winsDelta, losses := losses r + lossesDelta,
                      elo := elo r + ratingDelta,
                      recent_change := calculateChange ratingDelta rawRecentChange\<rparr>
               else r) rows"
proof -
  from nonblank have ne: "ident \<noteq> []" by (auto simp: trim_Nil)
  from exact have noextra: "filter (\<lambda>field. field \<notin> set allowedFields) (map fst body) = []"
    by (auto simp: filter_empty_conv)
  from nonblank ne noextra w l e r show ?thesis
    by (simp add: updateCharacterElo_def update_elo_query_def property_def isNaN_def Let_def)
qed

lemma wins_after_call:
  assumes nonblank: "trim ident \<noteq> []"
    and w: "map_of body ''wins_change'' = Some (Num 1)"
    and l: "map_of body ''losses_change'' = Some (Num lossesDelta)"
    and e: "map_of body ''elo_change'' = Some (Num ratingDelta)"
    and r: "map_of body ''recent_change'' = Some (Num rawRecentChange)"
    and exact: "set (map fst body) \<subseteq> set allowedFields"
  shows "map wins (filter (\<lambda>r. id_col r = ident)
            (snd (updateCharacterElo None ident body rows))) =
         map (\<lambda>r. wins r + 1) (filter (\<lambda>r. id_col r = ident) rows)"
  unfolding updateCharacterElo_table [OF assms]
  by (induction rows) auto

text \<open>
  C3: \<open>N\<close> calls of \<open>updateCharacterElo\<close> for the same \<open>id\<close>, each with
  \<open>wins_change = 1\<close>, a valid body and a storage query that does not fail, applied to
  the table one after the other, in any order and with any other deltas (\<open>bodies\<close> is
  an arbitrary list of \<open>N\<close> such requests), leave \<open>wins\<close> of the record with this
  \<open>id\<close> at its prior value plus \<open>N\<close>. This is the claim for \<open>N\<close> concurrent calls
  under its own proviso that the storage executes each \<open>UPDATE\<close> atomically: the
  handler issues one \<open>UPDATE\<close> and keeps no state of its own, so concurrent calls act on
  the table as the same calls in some order.
\<close>

theorem updateCharacterElo_no_lost_update:
  assumes nonblank: "trim ident \<noteq> []"
    and calls: "\<forall>body \<in> set bodies.
        map_of body ''wins_change'' = Some (Num 1)
        \<and> (\<exists>lossesDelta. map_of body ''losses_change'' = Some (Num lossesDelta))
        \<and> (\<exists>ratingDelta. map_of body ''elo_change'' = Some (Num ratingDelta))
        \<and> (\<exists>rawRecentChange. map_of body ''recent_change'' = Some (Num rawRecentChange))
        \<and> set (map fst body) \<subseteq> set allowedFields"
  shows "map wins (filter (\<lambda>r. id_col r = ident)
            (foldl (\<lambda>rows body. snd (updateCharacterElo None ident body rows)) rows bodies)) =
         map (\<lambda>r. wins r + int (length bodies)) (filter (\<lambda>r. id_col r = ident) rows)"
  using calls
proof (induction bodies arbitrary: rows)
  case Nil
  then show ?case by simp
next
  case (Cons body bodies)
  from Cons.prems obtain lossesDelta ratingDelta rawRecentChange
    where w: "map_of body ''wins_change'' = Some (Num 1)"
      and l: "map_of body ''losses_change'' = Some (Num lossesDelta)"
      and e: "map_of body ''elo_change'' = Some (Num ratingDelta)"
      and r: "map_of body ''recent_change'' = Some (Num rawRecentChange)"
      and exact: "set (map fst body) \<subseteq> set allowedFields"
    by auto
  let ?rows1 = "snd (updateCharacterElo None ident body rows)"
  have first: "map wins (filter (\<lambda>r. id_col r = ident) ?rows1) =
      map (\<lambda>r. wins r + 1) (filter (\<lambda>r. id_col r = ident) rows)"
    by (rule wins_after_call [OF nonblank w l e r exact])
  have rest: "map wins (filter (\<lambda>r. id_col r = ident)
        (foldl (\<lambda>rows body. snd (updateCharacterElo None ident body rows)) ?rows1 bodies)) =
      map (\<lambda>r. wins r + int (length bodies)) (filter (\<lambda>r. id_col r = ident) ?rows1)"
    by (rule Cons.IH) (use Cons.prems in simp)
  have "map (\<lambda>r. wins r + int (length bodies)) (filter (\<lambda>r. id_col r = ident) ?rows1) =
      map (\<lambda>n. n + int (length bodies)) (map wins (filter (\<lambda>r. id_col r = ident) ?rows1))"
    by simp
  also have "\<dots> = map (\<lambda>n. n + int (length bodies))
      (map (\<lambda>r. wins r + 1) (filter (\<lambda>r. id_col r = ident) rows))"
    by (simp only: first)
  also have "\<dots> = map (\<lambda>r. wins r + int (length (body # bodies)))
      (filter (\<lambda>r. id_col r = ident) rows)"
    by simp
  finally show ?case
    using rest by simp
qed

theorem updateCharacterElo_no_lost_update_witness:
  "map wins (filter (\<lambda>r. id_col r = ''a1'')
      (foldl (\<lambda>rows body. snd (updateCharacterElo None ''a1'' body rows)) [luffy, ace]
         [deltas, deltas_loss, deltas])) = [5]
   \<and> map wins (filter (\<lambda>r. id_col r = ''a1'') [luffy, ace]) = [2]"
proof -
  have t: "trim ''a1'' \<noteq> []"
    by (simp add: trim_def isWhiteSpace_def)
  have calls: "\<forall>body \<in> set [deltas, deltas_loss, deltas].
        map_of body ''wins_change'' = Some (Num 1)
        \<and> (\<exists>lossesDelta. map_of body ''losses_change'' = Some (Num lossesDelta))
        \<and> (\<exists>ratingDelta. map_of body ''elo_change'' = Some (Num ratingDelta))
        \<and> (\<exists>rawRecentChange. map_of body ''recent_change'' = Some (Num rawRecentChange))
        \<and> set (map fst body) \<subseteq> set allowedFields"
    by (simp add: deltas_def deltas_loss_def allowedFields_def)
  show ?thesis
    using updateCharacterElo_no_lost_update [OF t calls, of "[luffy, ace]"]
    by (simp add: luffy_def ace_def)
qed

subsection \<open>The roster synchronisation\<close>

lemma insert_characters_ok:
  "(\<And>j. k \<le> j \<Longrightarrow> j < k + length cs \<Longrightarrow> query_error j = None) \<Longrightarrow>
   insert_characters query_error generated_id k cs rows =
     (None, rows @ map (\<lambda>(j, c). insert_row (generated_id j) c) (zip [k..<k + length cs] cs))"
proof (induction cs arbitrary: k rows)
  case Nil
  then show ?case by simp
next
  case (Cons c cs)
  have here: "query_error k = None"
    using Cons.prems [of k] by simp
  have rest: "insert_characters query_error generated_id (Suc k) cs
                (rows @ [insert_row (generated_id k) c]) =
     (None, (rows @ [insert_row (generated_id k) c]) @
        map (\<lambda>(j, c). insert_row (generated_id j) c) (zip [Suc k..<Suc k + length cs] cs))"
    by (rule Cons.IH) (use Cons.prems in simp)
  have "k < k + length (c # cs)" by simp
  then have "[k..<k + length (c # cs)] = k # [Suc k..<k + length (c # cs)]"
    by (rule upt_conv_Cons)
  then have range: "[k..<k + length (c # cs)] = k # [Suc k..<Suc k + length cs]"
    by simp
  show ?case
    unfolding range using here rest by simp
qed

lemma insert_characters_columns:
  "(\<And>j. k \<le> j \<Longrightarrow> j < k + length cs \<Longrightarrow> query_error j = None) \<Longrightarrow>
   insert_characters query_error generated_id k cs rows =
     (None, rows @ map (\<lambda>(j, c).
        \<lparr>first_name = first_name c, last_name = last_name c, title = title c,
         image_path = image_path c, elo = elo c, rank = rank c,
         recent_change = recent_change c, wins = wins c, losses = losses c,
         id_col = generated_id j\<rparr>) (zip [k..<k + length cs] cs))"
  using insert_characters_ok [of k cs query_error generated_id rows]
  by (simp add: insert_row_def)

lemma new_ids:
  "length ks = length cs \<Longrightarrow>
   map id_col (map (\<lambda>(j, c).
        \<lparr>first_name = first_name c, last_name = last_name c, title = title c,
         image_path = image_path c, elo = elo c, rank = rank c,
         recent_change = recent_change c, wins = wins c, losses = losses c,
         id_col = generated_id j\<rparr>) (zip ks cs)) =
   map generated_id ks"
  by (induction ks cs rule: list_induct2) simp_all

text \<open>
  C6: when the scraper yields no entry, \<open>scrapeAndSaveCharacters\<close> returns the empty
  result and the table is as before, whatever the storage would answer. When it yields
  entries and no query fails, the table afterwards holds exactly one new row per fetched
  entry, in their order, each with the nine columns of its entry and the identifier the
  database generated for its insert: none of the former rows is left. When moreover the
  identifiers the database generates are new (distinct from one another and from those of
  the rows in the table), the identifiers of the new rows are distinct and none of them
  is the identifier of a former row. The delete comes first: when it succeeds and the
  first insert fails, the table is empty.
\<close>

theorem scrapeAndSaveCharacters_sync:
  "scrapeAndSaveCharacters (Inr []) query_error generated_id rows = (Inr [], rows)
   \<and> (characters \<noteq> [] \<longrightarrow> (\<forall>k \<le> length characters. query_error k = None) \<longrightarrow>
        scrapeAndSaveCharacters (Inr characters) query_error generated_id rows =
          (Inr characters,
           map (\<lambda>(k, c).
                  \<lparr>first_name = first_name c, last_name = last_name c, title = title c,
                   image_path = image_path c, elo = elo c, rank = rank c,
                   recent_change = recent_change c, wins = wins c, losses = losses c,
                   id_col = generated_id k\<rparr>)
             (zip [1..<Suc (length characters)] characters)))
   \<and> (characters \<noteq> [] \<longrightarrow> (\<forall>k \<le> length characters. query_error k = None) \<longrightarrow>
        inj_on generated_id {1..length characters} \<longrightarrow>
        (\<forall>k \<in> {1..length characters}. generated_id k \<notin> id_col ` set rows) \<longrightarrow>
        length (snd (scrapeAndSaveCharacters (Inr characters) query_error generated_id rows))
          = length characters
        \<and> distinct (map id_col
            (snd (scrapeAndSaveCharacters (Inr characters) query_error generated_id rows)))
        \<and> id_col ` set (snd (scrapeAndSaveCharacters (Inr characters) query_error
              generated_id rows)) \<inter> id_col ` set rows = {})
   \<and> (characters \<noteq> [] \<longrightarrow> query_error 0 = None \<longrightarrow> query_error 1 = Some e \<longrightarrow>
        scrapeAndSaveCharacters (Inr characters) query_error generated_id rows = (Inl e, []))"
proof -
  let ?new = "map (\<lambda>(k, c).
                  \<lparr>first_name = first_name c, last_name = last_name c, title = title c,
                   image_path = image_path c, elo = elo c, rank = rank c,
                   recent_change = recent_change c, wins = wins c, losses = losses c,
                   id_col = generated_id k\<rparr>)
             (zip [1..<Suc (length characters)] characters)"
  have empty: "scrapeAndSaveCharacters (Inr []) query_error generated_id rows = (Inr [], rows)"
    by (simp add: scrapeAndSaveCharacters_def)
  have replace: "scrapeAndSaveCharacters (Inr characters) query_error generated_id rows =
      (Inr characters, ?new)"
    if ne: "characters \<noteq> []" and ok: "\<forall>k \<le> length characters. query_error k = None"
  proof -
    from ok have del: "query_error 0 = None" by simp
    have ins: "insert_characters query_error generated_id 1 characters [] =
       (None, [] @ map (\<lambda>(j, c).
          \<lparr>first_name = first_name c, last_name = last_name c, title = title c,
           image_path = image_path c, elo = elo c, rank = rank c,
           recent_change = recent_change c, wins = wins c, losses = losses c,
           id_col = generated_id j\<rparr>) (zip [1..<1 + length characters] characters))"
      by (rule insert_characters_columns) (use ok in simp)
    show ?thesis
      using ne del ins by (simp add: scrapeAndSaveCharacters_def)
  qed
  have fresh: "length (snd (scrapeAndSaveCharacters (Inr characters) query_error generated_id rows))
          = length characters
        \<and> distinct (map id_col
            (snd (scrapeAndSaveCharacters (Inr characters) query_error generated_id rows)))
        \<and> id_col ` set (snd (scrapeAndSaveCharacters (Inr characters) query_error
              generated_id rows)) \<inter> id_col ` set rows = {}"
    if ne: "characters \<noteq> []" and ok: "\<forall>k \<le> length characters. query_error k = None"
      and inj: "inj_on generated_id {1..length characters}"
      and new: "\<forall>k \<in> {1..length characters}. generated_id k \<notin> id_col ` set rows"
  proof -
    have ids: "map id_col ?new = map generated_id [1..<Suc (length characters)]"
      by (rule new_ids) (simp del: upt_Suc)
    have range: "set [1..<Suc (length characters)] = {1..length characters}"
      by auto
    have len: "length ?new = length characters"
      by (simp del: upt_Suc)
    have dist: "distinct (map id_col ?new)"
      unfolding ids using inj range by (metis distinct_map distinct_upt)
    have "id_col ` set ?new = generated_id ` {1..length characters}"
      using ids range by (metis image_set)
    with new have disj: "id_col ` set ?new \<inter> id_col ` set rows = {}"
      by auto
    from len dist disj show ?thesis
      unfolding replace [OF ne ok] by simp
  qed
  have delete_first: "scrapeAndSaveCharacters (Inr characters) query_error generated_id rows
      = (Inl e, [])"
    if ne: "characters \<noteq> []" and del: "query_error 0 = None"
      and first: "query_error 1 = Some e"
  proof -
    from ne obtain c cs where "characters = c # cs" by (cases characters) auto
    with del first show ?thesis
      by (simp add: scrapeAndSaveCharacters_def)
  qed
  from empty replace fresh delete_first show ?thesis
    by blast
qed

theorem scrapeAndSaveCharacters_sync_witness:
  "scrapeAndSaveCharacters (Inr [usopp, robin]) (\<lambda>k. None) (\<lambda>k. CHR ''n'' # replicate k CHR ''u'')
     [luffy, ace] =
     (Inr [usopp, robin],
      [\<lparr>first_name = ''Usopp'', last_name = Some ''Sogeking'', title = Some ''Sniper'',
        image_path = Some ''usopp.png'', elo = 1011, rank = 12, recent_change = 13,
        wins = 14, losses = 15, id_col = ''nu''\<rparr>,
       \<lparr>first_name = ''Nico Robin'', last_name = None, title = Some [],
        image_path = None, elo = 1021, rank = 22, recent_change = - 23,
        wins = 24, losses = 25, id_col = ''nuu''\<rparr>])
   \<and> length (snd (scrapeAndSaveCharacters (Inr [usopp, robin]) (\<lambda>k. None)
        (\<lambda>k. CHR ''n'' # replicate k CHR ''u'') [luffy, ace])) = 2
   \<and> distinct (map id_col (snd (scrapeAndSaveCharacters (Inr [usopp, robin]) (\<lambda>k. None)
        (\<lambda>k. CHR ''n'' # replicate k CHR ''u'') [luffy, ace])))
   \<and> id_col ` set (snd (scrapeAndSaveCharacters (Inr [usopp, robin]) (\<lambda>k. None)
        (\<lambda>k. CHR ''n'' # replicate k CHR ''u'') [luffy, ace])) \<inter> id_col ` set [luffy, ace] = {}
   \<and> scrapeAndSaveCharacters (Inr [usopp, robin])
     (\<lambda>k. if k = 1 then Some (Error ''insert failed'') else None)
     (\<lambda>k. CHR ''n'' # replicate k CHR ''u'') [luffy, ace] =
     (Inl (Error ''insert failed''), [])"
proof -
  let ?cs = "[usopp, robin]"
  let ?gen = "\<lambda>k. CHR ''n'' # replicate k CHR ''u''"
  have ne: "?cs \<noteq> []" by simp
  have ok: "\<forall>k \<le> length ?cs. (\<lambda>k. None :: error option) k = None" by simp
  have inj: "inj_on ?gen {1..length ?cs}"
    by (auto simp: inj_on_def)
  have new: "\<forall>k \<in> {1..length ?cs}. ?gen k \<notin> id_col ` set [luffy, ace]"
    by (auto simp: luffy_def ace_def)
  have upt: "[1..<Suc (length ?cs)] = [1, 2]"
    by (simp add: upt_rec)
  note T = scrapeAndSaveCharacters_sync [of "\<lambda>k. None" ?gen "[luffy, ace]" ?cs]
  have a: "scrapeAndSaveCharacters (Inr ?cs) (\<lambda>k. None) ?gen [luffy, ace] =
     (Inr ?cs,
      [\<lparr>first_name = ''Usopp'', last_name = Some ''Sogeking'', title = Some ''Sniper'',
        image_path = Some ''usopp.png'', elo = 1011, rank = 12, recent_change = 13,
        wins = 14, losses = 15, id_col = ''nu''\<rparr>,
       \<lparr>first_name = ''Nico Robin'', last_name = None, title = Some [],
        image_path = None, elo = 1021, rank = 22, recent_change = - 23,
        wins = 24, losses = 25, id_col = ''nuu''\<rparr>])"
    using T ne ok unfolding upt
    by (simp add: usopp_def robin_def numeral_2_eq_2)
  have b: "length (snd (scrapeAndSaveCharacters (Inr ?cs) (\<lambda>k. None) ?gen [luffy, ace]))
       = length ?cs
     \<and> distinct (map id_col (snd (scrapeAndSaveCharacters (Inr ?cs) (\<lambda>k. None) ?gen
          [luffy, ace])))
     \<and> id_col ` set (snd (scrapeAndSaveCharacters (Inr ?cs) (\<lambda>k. None) ?gen [luffy, ace]))
          \<inter> id_col ` set [luffy, ace] = {}"
    by (rule T [THEN conjunct2, THEN conjunct2, THEN conjunct1, THEN mp, OF ne,
          THEN mp, OF ok, THEN mp, OF inj, THEN mp, OF new])
  have c: "scrapeAndSaveCharacters (Inr ?cs)
     (\<lambda>k. if k = 1 then Some (Error ''insert failed'') else None)
     ?gen [luffy, ace] = (Inl (Error ''insert failed''), [])"
    using scrapeAndSaveCharacters_sync
      [of "\<lambda>k. if k = 1 then Some (Error ''insert failed'') else None"
        ?gen "[luffy, ace]" ?cs "Error ''insert failed''"] ne
    by simp
  from b c show ?thesis
    unfolding a by simp
qed

subsection \<open>The image backfill\<close>

lemma scrapeCharacterImage_truthy:
  "truthy (scrapeCharacterImage p) \<longleftrightarrow> scrapeCharacterImage p \<noteq> None"
  by (auto simp: scrapeCharacterImage_def truthy_def or_else_def Let_def
      split: page_fetch.splits option.splits)

lemma scrapeCharacterImage_RequestFailed: "scrapeCharacterImage (RequestFailed e) = None"
  by (simp add: scrapeCharacterImage_def)

lemma image_loop_counts:
  "fst (image_loop env delay cs u s f reports rows) =
     (u + length (filter (\<lambda>c. scrapeCharacterImage (axios_get env c) \<noteq> None
                              \<and> update_error env c = None) cs),
      s + length (filter (\<lambda>c. scrapeCharacterImage (axios_get env c) = None) cs),
      f + length (filter (\<lambda>c. scrapeCharacterImage (axios_get env c) \<noteq> None
                              \<and> update_error env c \<noteq> None) cs))"
  by (induction cs arbitrary: u s f reports rows)
    (auto simp: Let_def scrapeCharacterImage_truthy split: option.splits)

lemma image_loop_reports:
  "fst (snd (image_loop env delay cs u s f reports rows)) =
     reports @ map (\<lambda>c. \<lparr>subject = c,
         waited = (if delay > 0 then Some delay else None),
         classified = (if scrapeCharacterImage (axios_get env c) = None then Skipped
                       else if update_error env c = None then Updated else Failed)\<rparr>) cs"
  by (induction cs arbitrary: u s f reports rows)
    (auto simp: Let_def scrapeCharacterImage_truthy split: option.splits)

lemma update_image_query_other:
  "r \<in> set rows \<Longrightarrow> id_col r \<noteq> p2 \<Longrightarrow> r \<in> set (update_image_query p1 p2 rows)"
  by (induction rows) (auto simp: update_image_query_def)

lemma image_loop_untouched:
  "r \<in> set rows \<Longrightarrow>
   (\<And>c. c \<in> set cs \<Longrightarrow> id_col c = id_col r \<Longrightarrow>
      scrapeCharacterImage (axios_get env c) = None \<or> update_error env c \<noteq> None) \<Longrightarrow>
   r \<in> set (snd (snd (image_loop env delay cs u s f reports rows)))"
proof (induction cs arbitrary: u s f reports rows)
  case Nil
  then show ?case by simp
next
  case (Cons c cs)
  have later: "\<And>c'. c' \<in> set cs \<Longrightarrow> id_col c' = id_col r \<Longrightarrow>
      scrapeCharacterImage (axios_get env c') = None \<or> update_error env c' \<noteq> None"
    using Cons.prems(2) by simp
  show ?case
  proof (cases "scrapeCharacterImage (axios_get env c) \<noteq> None \<and> update_error env c = None")
    case True
    then have "id_col c \<noteq> id_col r"
      using Cons.prems(2) [of c] by auto
    then have "r \<in> set (update_image_query (the (scrapeCharacterImage (axios_get env c)))
        (id_col c) rows)"
      using Cons.prems(1) by (intro update_image_query_other) auto
    from Cons.IH [OF this later] True show ?thesis
      by (simp add: Let_def scrapeCharacterImage_truthy)
  next
    case False
    with Cons.IH [OF Cons.prems(1) later] show ?thesis
      by (auto simp: Let_def scrapeCharacterImage_truthy split: option.splits)
  qed
qed

lemma distinct_ids_same_row:
  "distinct (map id_col rows) \<Longrightarrow> r \<in> set rows \<Longrightarrow> c \<in> set rows \<Longrightarrow>
   id_col c = id_col r \<Longrightarrow> c = r"
  by (meson distinct_map inj_onD)

lemma length_filter_sort_key:
  "length (filter P (sort_key k xs)) = length (filter P xs)"
  by (simp add: filter_sort)

lemma three_way_count:
  "length (filter (\<lambda>c. P c \<and> Q c) xs) + length (filter (\<lambda>c. \<not> P c) xs)
     + length (filter (\<lambda>c. P c \<and> \<not> Q c) xs) = length xs"
  by (induction xs) auto

lemma updateCharacterImages_run:
  assumes "select_error env = None"
  shows "updateCharacterImages env delay_arg rows =
     (let delay = (case delay_arg of None \<Rightarrow> 1000 | Some d \<Rightarrow> d);
          cs = sort_key first_name rows
      in (Inr \<lparr>total = length rows,
            updated = length (filter (\<lambda>c. scrapeCharacterImage (axios_get env c) \<noteq> None
                                        \<and> update_error env c = None) rows),
            skipped = length (filter (\<lambda>c. scrapeCharacterImage (axios_get env c) = None) rows),
            failed = length (filter (\<lambda>c. scrapeCharacterImage (axios_get env c) \<noteq> None
                                        \<and> update_error env c \<noteq> None) rows),
            timestamp = now env\<rparr>,
          map (\<lambda>c. \<lparr>subject = c,
                 waited = (if delay > 0 then Some delay else None),
                 classified = (if scrapeCharacterImage (axios_get env c) = None then Skipped
                               else if update_error env c = None then Updated else Failed)\<rparr>) cs,
          snd (snd (image_loop env delay cs 0 0 0 [] rows))))"
proof -
  let ?d = "case delay_arg of None \<Rightarrow> 1000 | Some d \<Rightarrow> d"
  let ?cs = "sort_key first_name rows"
  obtain u s f reports rows' where L: "image_loop env ?d ?cs 0 0 0 [] rows = ((u, s, f), reports, rows')"
    by (metis prod_cases3)
  have c: "(u, s, f) = fst (image_loop env ?d ?cs 0 0 0 [] rows)"
    and r: "reports = fst (snd (image_loop env ?d ?cs 0 0 0 [] rows))"
    and t: "rows' = snd (snd (image_loop env ?d ?cs 0 0 0 [] rows))"
    by (simp_all add: L)
  from c have counts: "u = length (filter (\<lambda>c. scrapeCharacterImage (axios_get env c) \<noteq> None
                                        \<and> update_error env c = None) rows)"
      "s = length (filter (\<lambda>c. scrapeCharacterImage (axios_get env c) = None) rows)"
      "f = length (filter (\<lambda>c. scrapeCharacterImage (axios_get env c) \<noteq> None
                                        \<and> update_error env c \<noteq> None) rows)"
    by (simp_all add: image_loop_counts length_filter_sort_key)
  from r have reps: "reports = map (\<lambda>c. \<lparr>subject = c,
                 waited = (if ?d > 0 then Some ?d else None),
                 classified = (if scrapeCharacterImage (axios_get env c) = None then Skipped
                               else if update_error env c = None then Updated else Failed)\<rparr>) ?cs"
    by (simp add: image_loop_reports)
  have "updateCharacterImages env delay_arg rows =
     (Inr \<lparr>total = length rows, updated = u, skipped = s, failed = f,
           timestamp = now env\<rparr>, reports, rows')"
    using assms L by (simp add: updateCharacterImages_def Let_def)
  then show ?thesis
    unfolding counts reps t Let_def by simp
qed

lemma reports_of_subject:
  assumes "c \<in> set cs"
  shows "classified ` {rep \<in> set (map (\<lambda>c. \<lparr>subject = c, waited = w, classified = g c\<rparr>) cs).
            subject rep = c} = {g c}"
proof -
  let ?R = "\<lambda>c. \<lparr>subject = c, waited = w, classified = g c\<rparr>"
  have "{rep \<in> set (map ?R cs). subject rep = c} = {?R c}"
    using assms by auto
  then show ?thesis by simp
qed

lemma untouched_row:
  assumes ids: "distinct (map id_col rows)" and c: "c \<in> set rows"
    and no: "scrapeCharacterImage (axios_get env c) = None \<or> update_error env c \<noteq> None"
  shows "c \<in> set (snd (snd (image_loop env delay (sort_key first_name rows) 0 0 0 [] rows)))"
proof (rule image_loop_untouched [OF c])
  fix c' assume "c' \<in> set (sort_key first_name rows)" and "id_col c' = id_col c"
  then have "c' = c"
    using distinct_ids_same_row [OF ids c, of c'] by simp
  with no show "scrapeCharacterImage (axios_get env c') = None \<or> update_error env c' \<noteq> None"
    by simp
qed

text \<open>
  C8: for every run of \<open>updateCharacterImages\<close> that completes (returns a summary), on a
  table whose identifiers are distinct, \<open>total = updated + skipped + failed\<close>, and
  every character for which \<open>scrapeCharacterImage\<close> finds no image is classified
  \<open>Skipped\<close> and its row is in the table afterwards as it was before.
\<close>

theorem updateCharacterImages_summary:
  assumes run: "updateCharacterImages env delay_arg rows = (Inr summary, reports, rows')"
    and ids: "distinct (map id_col rows)"
  shows "total summary = updated summary + skipped summary + failed summary
     \<and> (\<forall>c \<in> set rows. scrapeCharacterImage (axios_get env c) = None \<longrightarrow>
          classified ` {rep \<in> set reports. subject rep = c} = {Skipped} \<and> c \<in> set rows')"
proof -
  from run have sel: "select_error env = None"
    by (auto simp: updateCharacterImages_def Let_def split: option.splits)
  note R = run [unfolded updateCharacterImages_run [OF sel] Let_def, simplified]
  from R have sm: "total summary = length rows"
    "updated summary = length (filter (\<lambda>c. scrapeCharacterImage (axios_get env c) \<noteq> None
                                        \<and> update_error env c = None) rows)"
    "skipped summary = length (filter (\<lambda>c. scrapeCharacterImage (axios_get env c) = None) rows)"
    "failed summary = length (filter (\<lambda>c. scrapeCharacterImage (axios_get env c) \<noteq> None
                                        \<and> update_error env c \<noteq> None) rows)"
    by auto
  have tot: "total summary = updated summary + skipped summary + failed summary"
    unfolding sm
    using three_way_count [of "\<lambda>c. scrapeCharacterImage (axios_get env c) \<noteq> None"
        "\<lambda>c. update_error env c = None" rows]
    by simp
  have each: "classified ` {rep \<in> set reports. subject rep = c} = {Skipped} \<and> c \<in> set rows'"
    if c: "c \<in> set rows" and none: "scrapeCharacterImage (axios_get env c) = None" for c
  proof
    from c have "c \<in> set (sort_key first_name rows)" by simp
    from reports_of_subject [OF this] R none
    show "classified ` {rep \<in> set reports. subject rep = c} = {Skipped}"
      by auto
    from R untouched_row [OF ids c, of env] none show "c \<in> set rows'"
      by auto
  qed
  from tot each show ?thesis by blast
qed

theorem updateCharacterImages_summary_witness:
  "updateCharacterImages web (Some 0) [luffy, ace, nami] =
     (Inr \<lparr>total = 3, updated = 1, skipped = 2, failed = 0,
           timestamp = ''2025-01-01T00:00:00.000Z''\<rparr>,
      [\<lparr>subject = ace, waited = None, classified = Skipped\<rparr>,
       \<lparr>subject = luffy, waited = None, classified = Skipped\<rparr>,
       \<lparr>subject = nami, waited = None, classified = Updated\<rparr>],
      [luffy, ace, nami\<lparr>image_path := Some ''nami.png''\<rparr>])
   \<and> axios_get web ace = Page None
   \<and> scrapeCharacterImage (axios_get web ace) = None
   \<and> classified ` {rep \<in> set [\<lparr>subject = ace, waited = None, classified = Skipped\<rparr>,
         \<lparr>subject = luffy, waited = None, classified = Skipped\<rparr>,
         \<lparr>subject = nami, waited = None, classified = Updated\<rparr>]. subject rep = ace}
       = {Skipped}
   \<and> ace \<in> set [luffy, ace, nami\<lparr>image_path := Some ''nami.png''\<rparr>]"
proof -
  have run: "updateCharacterImages web (Some 0) [luffy, ace, nami] =
     (Inr \<lparr>total = 3, updated = 1, skipped = 2, failed = 0,
           timestamp = ''2025-01-01T00:00:00.000Z''\<rparr>,
      [\<lparr>subject = ace, waited = None, classified = Skipped\<rparr>,
       \<lparr>subject = luffy, waited = None, classified = Skipped\<rparr>,
       \<lparr>subject = nami, waited = None, classified = Updated\<rparr>],
      [luffy, ace, nami\<lparr>image_path := Some ''nami.png''\<rparr>])"
    by (simp add: updateCharacterImages_def web_def luffy_def ace_def nami_def Let_def
        scrapeCharacterImage_def truthy_def or_else_def update_image_query_def)
  have ids: "distinct (map id_col [luffy, ace, nami])"
    by (simp add: luffy_def ace_def nami_def)
  have page: "axios_get web ace = Page None"
    by (simp add: web_def ace_def)
  then have none: "scrapeCharacterImage (axios_get web ace) = None"
    by (simp add: scrapeCharacterImage_def)
  from updateCharacterImages_summary [OF run ids] none
  have "classified ` {rep \<in> set [\<lparr>subject = ace, waited = None, classified = Skipped\<rparr>,
         \<lparr>subject = luffy, waited = None, classified = Skipped\<rparr>,
         \<lparr>subject = nami, waited = None, classified = Updated\<rparr>]. subject rep = ace}
       = {Skipped}
     \<and> ace \<in> set [luffy, ace, nami\<lparr>image_path := Some ''nami.png''\<rparr>]"
    by simp
  with run page none show ?thesis by simp
qed

text \<open>
  C7, amended: in a run of \<open>updateCharacterImages\<close> whose \<open>SELECT\<close> succeeds, on a
  table whose identifiers are distinct, every character whose page request or parse
  errors is classified \<open>Skipped\<close> (\<open>scrapeCharacterImage\<close> catches the error and
  returns \<open>null\<close>) and its row is afterwards as it was before; the skipped counter
  counts these characters with those that have no image, the failed counter counts the
  characters whose image was found and whose \<open>UPDATE\<close> failed; the run returns a
  summary and reports every selected character, in the order of the selection.
\<close>

theorem updateCharacterImages_request_failed:
  assumes run: "updateCharacterImages env delay_arg rows = (result, reports, rows')"
    and sel: "select_error env = None"
    and ids: "distinct (map id_col rows)"
  shows "(\<exists>summary. result = Inr summary
            \<and> skipped summary =
                length (filter (\<lambda>c. scrapeCharacterImage (axios_get env c) = None) rows)
            \<and> failed summary =
                length (filter (\<lambda>c. scrapeCharacterImage (axios_get env c) \<noteq> None
                                    \<and> update_error env c \<noteq> None) rows))
     \<and> map subject reports = sort_key first_name rows
     \<and> (\<forall>c \<in> set rows. \<forall>e. axios_get env c = RequestFailed e \<longrightarrow>
          scrapeCharacterImage (axios_get env c) = None
          \<and> classified ` {rep \<in> set reports. subject rep = c} = {Skipped}
          \<and> c \<in> set rows')"
proof -
  note R = run [unfolded updateCharacterImages_run [OF sel] Let_def, simplified]
  from R have res: "\<exists>summary. result = Inr summary
            \<and> skipped summary =
                length (filter (\<lambda>c. scrapeCharacterImage (axios_get env c) = None) rows)
            \<and> failed summary =
                length (filter (\<lambda>c. scrapeCharacterImage (axios_get env c) \<noteq> None
                                    \<and> update_error env c \<noteq> None) rows)"
    by auto
  from R have subj: "map subject reports = sort_key first_name rows"
    by (auto simp: comp_def)
  have each: "scrapeCharacterImage (axios_get env c) = None
      \<and> classified ` {rep \<in> set reports. subject rep = c} = {Skipped} \<and> c \<in> set rows'"
    if c: "c \<in> set rows" and failed: "axios_get env c = RequestFailed e" for c e
  proof (intro conjI)
    from failed show none: "scrapeCharacterImage (axios_get env c) = None"
      by (simp add: scrapeCharacterImage_RequestFailed)
    from c have "c \<in> set (sort_key first_name rows)" by simp
    from reports_of_subject [OF this] R none
    show "classified ` {rep \<in> set reports. subject rep = c} = {Skipped}"
      by auto
    from R untouched_row [OF ids c, of env] none show "c \<in> set rows'"
      by auto
  qed
  from res subj each show ?thesis by blast
qed

theorem updateCharacterImages_request_failed_witness:
  "updateCharacterImages web (Some 250) [luffy, nami] =
     (Inr \<lparr>total = 2, updated = 1, skipped = 1, failed = 0,
           timestamp = ''2025-01-01T00:00:00.000Z''\<rparr>,
      [\<lparr>subject = luffy, waited = Some 250, classified = Skipped\<rparr>,
       \<lparr>subject = nami, waited = Some 250, classified = Updated\<rparr>],
      [luffy, nami\<lparr>image_path := Some ''nami.png''\<rparr>])
   \<and> axios_get web luffy = RequestFailed (Error ''timeout'')
   \<and> classified ` {rep \<in> set [\<lparr>subject = luffy, waited = Some 250, classified = Skipped\<rparr>,
         \<lparr>subject = nami, waited = Some 250, classified = Updated\<rparr>]. subject rep = luffy}
       = {Skipped}
   \<and> luffy \<in> set [luffy, nami\<lparr>image_path := Some ''nami.png''\<rparr>]"
proof -
  have run: "updateCharacterImages web (Some 250) [luffy, nami] =
     (Inr \<lparr>total = 2, updated = 1, skipped = 1, failed = 0,
           timestamp = ''2025-01-01T00:00:00.000Z''\<rparr>,
      [\<lparr>subject = luffy, waited = Some 250, classified = Skipped\<rparr>,
       \<lparr>subject = nami, waited = Some 250, classified = Updated\<rparr>],
      [luffy, nami\<lparr>image_path := Some ''nami.png''\<rparr>])"
    by (simp add: updateCharacterImages_def web_def luffy_def nami_def Let_def
        scrapeCharacterImage_def truthy_def or_else_def update_image_query_def)
  have sel: "select_error web = None"
    by (simp add: web_def)
  have ids: "distinct (map id_col [luffy, nami])"
    by (simp add: luffy_def nami_def)
  have req: "axios_get web luffy = RequestFailed (Error ''timeout'')"
    by (simp add: web_def luffy_def)
  from updateCharacterImages_request_failed [OF run sel ids] req
  have "classified ` {rep \<in> set [\<lparr>subject = luffy, waited = Some 250, classified = Skipped\<rparr>,
         \<lparr>subject = nami, waited = Some 250, classified = Updated\<rparr>]. subject rep = luffy}
       = {Skipped}
     \<and> luffy \<in> set [luffy, nami\<lparr>image_path := Some ''nami.png''\<rparr>]"
    by simp
  with run req show ?thesis by simp
qed

text \<open>
  The claim as stated fails: in a run over one character whose page request fails, the
  character is classified \<open>Skipped\<close> and the failed counter stays 0.
\<close>

theorem updateCharacterImages_request_failed_counterexample:
  "axios_get web luffy = RequestFailed (Error ''timeout'')
   \<and> updateCharacterImages web (Some 0) [luffy] =
     (Inr \<lparr>total = 1, updated = 0, skipped = 1, failed = 0,
           timestamp = ''2025-01-01T00:00:00.000Z''\<rparr>,
      [\<lparr>subject = luffy, waited = None, classified = Skipped\<rparr>],
      [luffy])"
  by (simp add: updateCharacterImages_def web_def luffy_def Let_def
      scrapeCharacterImage_def truthy_def)

subsection \<open>The delay between requests\<close>

text \<open>
  C9: the delay awaited before each request. \<open>updateCharacterImages\<close> called with 0
  awaits nothing and called without a delay awaits 1000 ms; through the route, no
  \<open>delay\<close> parameter gives 1000 ms and \<open>delay=250\<close> gives 250 ms, but \<open>delay=0\<close>
  gives 1000 ms: \<open>parseInt("0") || 1000\<close> is 1000, so the value 0 does not disable the
  wait for a caller of the route.
\<close>

theorem updateCharacterImages_route_delay:
  "map waited (fst (snd (updateCharacterImages web (Some 0) [luffy, ace]))) = [None, None]
   \<and> map waited (fst (snd (updateCharacterImages web None [luffy, ace])))
       = [Some 1000, Some 1000]
   \<and> map waited (fst (snd (updateCharacterImages_route web None [luffy, ace])))
       = [Some 1000, Some 1000]
   \<and> map waited (fst (snd (updateCharacterImages_route web (Some ''250'') [luffy, ace])))
       = [Some 250, Some 250]
   \<and> map waited (fst (snd (updateCharacterImages_route web (Some ''0'') [luffy, ace])))
       = [Some 1000, Some 1000]"
proof -
  have p: "parseInt ''undefined'' = None" "parseInt ''250'' = Some 250"
    "parseInt ''0'' = Some 0"
    by (simp_all add: parseInt_def isWhiteSpace_def isRadixDigit_def digitValue_def Let_def)
  have sel: "select_error web = None"
    by (simp add: web_def)
  show ?thesis
    by (simp add: updateCharacterImages_route_def updateCharacterImagesFromPages_def
        updateCharacterImages_run [OF sel] p or_default_def Let_def comp_def)
qed

end
